theory Spec2Isabelle
  imports Main "HOL-Library.Word"
begin

section \<open>The message queue and the thread pool of serverflow\<close>

text \<open>
  The development embeds \<^verbatim>\<open>kernel/msgqueue.c\<close> and the thread pool built on it.
  Sizes, addresses and thread identities are 64-bit words (an LP64 target: \<^verbatim>\<open>size_t\<close>,
  \<^verbatim>\<open>void *\<close> and \<^verbatim>\<open>pthread_t\<close> are 8 bytes); \<^verbatim>\<open>int\<close> fields are
  32-bit words. The null pointer is the word 0.
\<close>

subsection \<open>Memory and the queue structure\<close>

type_synonym addr = "64 word"

text \<open>
  A \<^verbatim>\<open>void **\<close> of the queue points either at one of the two list heads inside the
  queue structure (\<^verbatim>\<open>&queue->head1\<close>, \<^verbatim>\<open>&queue->head2\<close>) or at the link cell
  of a message, which lives at an address of the caller's memory.
\<close>

datatype ref = Head1 | Head2 | Cell addr

datatype mutex = GetMutex | PutMutex | PoolMutex

datatype cond = GetCond | PutCond | TermCond

text \<open>What can be destroyed or handed back to the allocator.\<close>

datatype resource = Mutex mutex | Cond cond | Key | QueueBlock | PoolBlock | Block addr

text \<open>
  The fields of \<^verbatim>\<open>struct __msgqueue\<close> in the order of the source, followed by the
  part of the memory the queue functions reach: \<open>links\<close> holds the content of every
  pointer-sized link cell by its address, and \<open>released\<close> records, in order, the
  primitives destroyed and the blocks freed so far. The four synchronisation objects carry
  no data; they appear as \<^typ>\<open>mutex\<close> and \<^typ>\<open>cond\<close> names.
\<close>

record qstate =
  msg_max :: "64 word"
  msg_cnt :: "64 word"
  link_off :: "32 word"
  nonblock :: "32 word"
  head1 :: addr
  head2 :: addr
  get_head :: ref
  put_head :: ref
  put_tail :: ref
  links :: "addr \<Rightarrow> addr"
  released :: "resource list"

text \<open>Reading and writing through a \<^verbatim>\<open>void **\<close>.\<close>

fun rd :: "qstate \<Rightarrow> ref \<Rightarrow> addr" where
  "rd s Head1 = head1 s"
| "rd s Head2 = head2 s"
| "rd s (Cell a) = links s a"

fun wr :: "ref \<Rightarrow> addr \<Rightarrow> qstate \<Rightarrow> qstate" where
  "wr Head1 v s = s\<lparr>head1 := v\<rparr>"
| "wr Head2 v s = s\<lparr>head2 := v\<rparr>"
| "wr (Cell a) v s = s\<lparr>links := (links s)(a := v)\<rparr>"

subsection \<open>Calls that may wait\<close>

text \<open>
  A call either returns a value in a final state, or stays suspended in
  \<^verbatim>\<open>pthread_cond_wait\<close> on a condition variable, or dereferences a null pointer.
  Locking, unlocking, signalling and broadcasting do not change the data of the state and
  are not recorded; the mutexes only decide which interleavings exist.
\<close>

datatype ('a, 's) outcome = Returns 'a 's | Waits cond 's | Faults 's

text \<open>
  The loop \<^verbatim>\<open>while (g) pthread_cond_wait(c, m);\<close>. Each element of \<open>obs\<close> is the
  state the thread finds when one call of \<^verbatim>\<open>pthread_cond_wait\<close> returns with the
  mutex held again, as the other threads have left it. When the guard holds and no further
  wake-up comes, the thread stays suspended: the result is \<open>None\<close>. A call that runs
  alone has \<open>obs = []\<close>.
\<close>

fun cond_wait_loop :: "('s \<Rightarrow> bool) \<Rightarrow> 's list \<Rightarrow> 's \<Rightarrow> 's option" where
  "cond_wait_loop g [] s = (if g s then None else Some s)"
| "cond_wait_loop g (s' # obs) s = (if g s then cond_wait_loop g obs s' else Some s)"

subsection \<open>msgqueue.c\<close>

text \<open>
  \<^verbatim>\<open>msgqueue_create\<close>, lines 62 to 70: the structure as the innermost branch
  initialises it, in the memory \<open>mem\<close> found at the time of the call.
\<close>

definition new_queue :: "64 word \<Rightarrow> 32 word \<Rightarrow> (addr \<Rightarrow> addr) \<Rightarrow> qstate" where
  "new_queue maxlen linkoff mem =
     \<lparr>msg_max = maxlen, msg_cnt = 0, link_off = linkoff, nonblock = 0,
      head1 = 0, head2 = 0, get_head = Head1, put_head = Head2, put_tail = Head2,
      links = mem, released = []\<rparr>"

text \<open>
  \<^verbatim>\<open>msgqueue_create\<close>. \<open>malloc_ok\<close> says whether the allocation succeeded and
  \<open>r1\<close> to \<open>r4\<close> are the results of the four initialisations, of which a later one
  is only called when the earlier ones returned 0. A failure gives \<open>Inl\<close> with the
  value stored into \<^verbatim>\<open>errno\<close>, if any (the null return).
\<close>

definition msgqueue_create ::
  "bool \<Rightarrow> int \<Rightarrow> int \<Rightarrow> int \<Rightarrow> int \<Rightarrow> 64 word \<Rightarrow> 32 word \<Rightarrow> (addr \<Rightarrow> addr) \<Rightarrow> int option + qstate" where
  "msgqueue_create malloc_ok r1 r2 r3 r4 maxlen linkoff mem =
     (if \<not> malloc_ok then Inl None
      else if r1 \<noteq> 0 then Inl (Some r1)
      else if r2 \<noteq> 0 then Inl (Some r2)
      else if r3 \<noteq> 0 then Inl (Some r3)
      else if r4 \<noteq> 0 then Inl (Some r4)
      else Inr (new_queue maxlen linkoff mem))"

text \<open>
  The guard of the producer's wait, line 86:
  \<^verbatim>\<open>queue->msg_cnt > queue->msg_max - 1 && !queue->nonblock\<close>,
  in unsigned 64-bit arithmetic.
\<close>

definition msg_full :: "qstate \<Rightarrow> bool" where
  "msg_full s = (msg_cnt s > msg_max s - 1)"

definition put_guard :: "qstate \<Rightarrow> bool" where
  "put_guard s = (msg_full s \<and> nonblock s = 0)"

text \<open>
  \<^verbatim>\<open>msgqueue_put\<close>. The link cell of the message is at \<^verbatim>\<open>(char *)msg + link_off\<close>
  (the offset is a signed \<^verbatim>\<open>int\<close>). It is cleared before the mutex is taken; the
  loop may wait; then the cell \<^verbatim>\<open>put_tail\<close> points at receives the link address and
  \<^verbatim>\<open>put_tail\<close> moves to the link. The function has no further statement before it
  releases the mutex.
\<close>

definition msgqueue_put :: "qstate list \<Rightarrow> addr \<Rightarrow> qstate \<Rightarrow> (unit, qstate) outcome" where
  "msgqueue_put obs msg s =
     (let link = msg + scast (link_off s) in
      if link = 0 then Faults s
      else
        let s1 = wr (Cell link) 0 s in
        case cond_wait_loop put_guard obs s1 of
          None \<Rightarrow> Waits PutCond (last (s1 # obs))
        | Some s2 \<Rightarrow> Returns () ((wr (put_tail s2) link s2)\<lparr>put_tail := Cell link\<rparr>))"

text \<open>The guard of the consumer's wait, line 29.\<close>

definition swap_guard :: "qstate \<Rightarrow> bool" where
  "swap_guard s = (msg_cnt s = 0 \<and> nonblock s = 0)"

text \<open>
  \<^verbatim>\<open>__msgqueue_swap\<close>. An Isabelle name cannot start with an underscore: the
  two leading underscores of a source name are written \<open>uu_\<close>. The old
  \<^verbatim>\<open>get_head\<close> is kept in a local variable and \<^verbatim>\<open>get_head\<close> takes the value
  of \<^verbatim>\<open>put_head\<close> before the mutex is taken.
\<close>

definition uu_msgqueue_swap :: "qstate list \<Rightarrow> qstate \<Rightarrow> (64 word, qstate) outcome" where
  "uu_msgqueue_swap obs s =
     (let gh = get_head s;
          s1 = s\<lparr>get_head := put_head s\<rparr> in
      case cond_wait_loop swap_guard obs s1 of
        None \<Rightarrow> Waits GetCond (last (s1 # obs))
      | Some s2 \<Rightarrow> Returns (msg_cnt s2) (s2\<lparr>put_head := gh, put_tail := gh, msg_cnt := 0\<rparr>))"

text \<open>
  Lines 100 and 101 of \<^verbatim>\<open>msgqueue_get\<close>: the message is the head link minus the
  offset, and the head cell takes the content of that link.
\<close>

definition pop :: "qstate \<Rightarrow> (addr, qstate) outcome" where
  "pop s =
     (let p = rd s (get_head s) in
      if p = 0 then Faults s
      else Returns (p - scast (link_off s)) (wr (get_head s) (links s p) s))"

text \<open>
  \<^verbatim>\<open>msgqueue_get\<close>. The swap is only called when the consumer's head cell is null
  (\<^verbatim>\<open>||\<close> evaluates its right operand only then). The result 0 is the null return.
\<close>

definition msgqueue_get :: "qstate list \<Rightarrow> qstate \<Rightarrow> (addr, qstate) outcome" where
  "msgqueue_get obs s =
     (if rd s (get_head s) \<noteq> 0 then pop s
      else
        case uu_msgqueue_swap obs s of
          Returns cnt s1 \<Rightarrow> if cnt > 0 then pop s1 else Returns 0 s1
        | Waits c s1 \<Rightarrow> Waits c s1
        | Faults s1 \<Rightarrow> Faults s1)"

text \<open>\<^verbatim>\<open>msgqueue_destory\<close>: four destructions and one \<^verbatim>\<open>free\<close>, of the queue.\<close>

definition msgqueue_destory :: "qstate \<Rightarrow> qstate" where
  "msgqueue_destory s =
     s\<lparr>released := released s @ [Mutex GetMutex, Mutex PutMutex, Cond PutCond, Cond GetCond, QueueBlock]\<rparr>"

text \<open>
  Modelled from the spec: \<^verbatim>\<open>msgqueue_set_nonblock\<close> is declared in msgqueue.h and
  called by the thread pool, but msgqueue.c does not define it. The specification says that it
  acquires both mutexes, sets \<open>nonblock = true\<close>, broadcasts both condition variables
  and releases.
\<close>

definition msgqueue_set_nonblock :: "qstate \<Rightarrow> qstate" where
  "msgqueue_set_nonblock s = s\<lparr>nonblock := 1\<rparr>"

text \<open>
  Modelled from the spec: \<^verbatim>\<open>msgqueue_set_block\<close> is declared in msgqueue.h and
  msgqueue.c does not define it. The specification calls it the symmetric clear.
\<close>

definition msgqueue_set_block :: "qstate \<Rightarrow> qstate" where
  "msgqueue_set_block s = s\<lparr>nonblock := 0\<rparr>"

subsection \<open>The thread pool\<close>

text \<open>
  \<^verbatim>\<open>struct thrdpool_task\<close>: a function pointer and its argument. The field
  \<^verbatim>\<open>context\<close> is written \<open>ctxt\<close>, since \<open>context\<close> is a keyword.
\<close>

record thrdpool_task =
  routine :: addr
  ctxt :: addr

text \<open>
  The data fields of \<^verbatim>\<open>struct __thrdpool\<close>. \<^verbatim>\<open>terminate\<close> is a pointer to a
  condition variable, null until a shutdown starts.
\<close>

record thrdpool =
  nthreads :: "64 word"
  stacksize :: "64 word"
  tid :: "64 word"
  terminate :: "cond option"

text \<open>
  What the pool functions reach: the address of the pool structure, the structure, the queue
  \<^verbatim>\<open>pool->msgqueue\<close> points to together with the link cells, the
  \<^verbatim>\<open>task\<close> field of every \<^verbatim>\<open>struct __thrdpool_task_entry\<close> by the entry's
  address, the number of threads started, the threads detached and the threads joined so far
  in the order of the calls, and \<^verbatim>\<open>errno\<close>.
\<close>

record pstate =
  self :: addr
  pool :: thrdpool
  msgqueue :: qstate
  tasks :: "addr \<Rightarrow> thrdpool_task"
  spawned :: nat
  detached :: "64 word list"
  joined :: "64 word list"
  errno :: int

text \<open>\<^verbatim>\<open>__zero_tid\<close>: a static object, hence all zero bits.\<close>

definition uu_zero_tid :: "64 word" where
  "uu_zero_tid = 0"

text \<open>
  \<^verbatim>\<open>&pool->tid\<close>: the fields before \<^verbatim>\<open>tid\<close> are a pointer and two
  \<^verbatim>\<open>size_t\<close>, 24 bytes.
\<close>

definition tid_field :: "addr \<Rightarrow> addr" where
  "tid_field p = p + 24"

text \<open>
  \<^verbatim>\<open>memcpy(&pool->tid, &__zero_tid, sizeof(pthread_t))\<close>: copies the source over the
  field and returns its first argument.
\<close>

definition memcpy_tid :: "64 word \<Rightarrow> pstate \<Rightarrow> addr \<times> pstate" where
  "memcpy_tid src p = (tid_field (self p), p\<lparr>pool := (pool p)\<lparr>tid := src\<rparr>\<rparr>)"

text \<open>The guard of the wait in \<^verbatim>\<open>__thrdpool_terminate\<close>, line 85.\<close>

definition workers_left :: "pstate \<Rightarrow> bool" where
  "workers_left p = (nthreads (pool p) > 0)"

text \<open>
  \<^verbatim>\<open>__thrdpool_terminate\<close>. \<open>me\<close> is \<^verbatim>\<open>pthread_self()\<close>. After the wait,
  the value \<^verbatim>\<open>memcpy\<close> returns is compared with 0 and the thread whose identity
  the field then holds is joined.
\<close>

definition uu_thrdpool_terminate :: "pstate list \<Rightarrow> 64 word \<Rightarrow> bool \<Rightarrow> pstate \<Rightarrow> (unit, pstate) outcome" where
  "uu_thrdpool_terminate obs me in_pool p =
     (let p1 = p\<lparr>msgqueue := msgqueue_set_nonblock (msgqueue p)\<rparr>;
          p2 = p1\<lparr>pool := (pool p1)\<lparr>terminate := Some TermCond\<rparr>\<rparr>;
          p3 = (if in_pool
                then p2\<lparr>detached := detached p2 @ [me],
                        pool := (pool p2)\<lparr>nthreads := nthreads (pool p2) - 1\<rparr>\<rparr>
                else p2) in
      case cond_wait_loop workers_left obs p3 of
        None \<Rightarrow> Waits TermCond (last (p3 # obs))
      | Some p4 \<Rightarrow>
          let (r, p5) = memcpy_tid uu_zero_tid p4 in
          if r \<noteq> 0 then Returns () (p5\<lparr>joined := joined p5 @ [tid (pool p5)]\<rparr>)
          else Returns () p5)"

text \<open>
  \<^verbatim>\<open>__thrdpool_schedule\<close>: the task is copied into the entry at \<open>buf\<close>, and the
  entry is put on the queue.
\<close>

definition uu_thrdpool_schedule :: "qstate list \<Rightarrow> thrdpool_task \<Rightarrow> addr \<Rightarrow> pstate \<Rightarrow> (unit, pstate) outcome" where
  "uu_thrdpool_schedule obs task buf p =
     (let p1 = p\<lparr>tasks := (tasks p)(buf := task)\<rparr> in
      case msgqueue_put obs buf (msgqueue p1) of
        Returns u q \<Rightarrow> Returns () (p1\<lparr>msgqueue := q\<rparr>)
      | Waits c q \<Rightarrow> Waits c (p1\<lparr>msgqueue := q\<rparr>)
      | Faults q \<Rightarrow> Faults (p1\<lparr>msgqueue := q\<rparr>))"

text \<open>
  \<^verbatim>\<open>thrdpool_schedule\<close>. \<open>buf\<close> is what \<^verbatim>\<open>malloc\<close> returned: 0 when the
  allocation failed, else the address of a block no live entry occupies.
\<close>

definition thrdpool_schedule :: "addr \<Rightarrow> qstate list \<Rightarrow> thrdpool_task \<Rightarrow> pstate \<Rightarrow> (int, pstate) outcome" where
  "thrdpool_schedule buf obs task p =
     (if buf \<noteq> 0 then
        (case uu_thrdpool_schedule obs task buf p of
           Returns u p' \<Rightarrow> Returns 0 p'
         | Waits c p' \<Rightarrow> Waits c p'
         | Faults p' \<Rightarrow> Faults p')
      else Returns (- 1) p)"

text \<open>
  \<^verbatim>\<open>thrdpool_increase\<close>. \<open>attr_ret\<close> and \<open>create_ret\<close> are the results of
  \<^verbatim>\<open>pthread_attr_init\<close> and \<^verbatim>\<open>pthread_create\<close>; the second is only called
  when the first returned 0. The attribute object and the new thread's identity are locals
  of the function.
\<close>

definition thrdpool_increase :: "int \<Rightarrow> int \<Rightarrow> pstate \<Rightarrow> int \<times> pstate" where
  "thrdpool_increase attr_ret create_ret p =
     (if attr_ret = 0 then
        (if create_ret = 0
         then (0, p\<lparr>spawned := spawned p + 1, pool := (pool p)\<lparr>nthreads := nthreads (pool p) + 1\<rparr>\<rparr>)
         else (- 1, p\<lparr>errno := create_ret\<rparr>))
      else (- 1, p\<lparr>errno := attr_ret\<rparr>))"

text \<open>
  \<^verbatim>\<open>thrdpool_create\<close>, lines 144 and 154 to 157: the pool at address \<open>a\<close> before
  any worker is started, with a queue made by \<^verbatim>\<open>msgqueue_create(0, 0)\<close>.
\<close>

definition new_pool :: "addr \<Rightarrow> 64 word \<Rightarrow> (addr \<Rightarrow> addr) \<Rightarrow> (addr \<Rightarrow> thrdpool_task) \<Rightarrow> pstate" where
  "new_pool a stk mem tmem =
     \<lparr>self = a,
      pool = \<lparr>nthreads = 0, stacksize = stk, tid = 0, terminate = None\<rparr>,
      msgqueue = new_queue 0 0 mem, tasks = tmem,
      spawned = 0, detached = [], joined = [], errno = 0\<rparr>"

subsection \<open>Reading outcomes and running calls one after another\<close>

fun returned :: "('a, 's) outcome \<Rightarrow> 'a option" where
  "returned (Returns a s) = Some a"
| "returned (Waits c s) = None"
| "returned (Faults s) = None"

fun waiting :: "('a, 's) outcome \<Rightarrow> cond option" where
  "waiting (Returns a s) = None"
| "waiting (Waits c s) = Some c"
| "waiting (Faults s) = None"

fun final :: "('a, 's) outcome \<Rightarrow> 's" where
  "final (Returns a s) = s"
| "final (Waits c s) = s"
| "final (Faults s) = s"

text \<open>
  \<open>after r f\<close> runs the call \<open>f\<close> in the state the call \<open>r\<close> returned in; a call
  that did not return is followed by nothing.
\<close>

fun after :: "('a, 's) outcome \<Rightarrow> ('s \<Rightarrow> ('b, 's) outcome) \<Rightarrow> ('b, 's) outcome" where
  "after (Returns a s) f = f s"
| "after (Waits c s) f = Waits c s"
| "after (Faults s) f = Faults s"

subsection \<open>The lists of the queue\<close>

text \<open>
  \<open>chain m p xs\<close>: starting from the pointer \<open>p\<close> and following the link cells of the
  memory \<open>m\<close>, one meets exactly the link addresses \<open>xs\<close> and then null.
\<close>

fun chain :: "(addr \<Rightarrow> addr) \<Rightarrow> addr \<Rightarrow> addr list \<Rightarrow> bool" where
  "chain m p [] = (p = 0)"
| "chain m p (x # xs) = (p = x \<and> x \<noteq> 0 \<and> chain m (m x) xs)"

fun is_head :: "ref \<Rightarrow> bool" where
  "is_head Head1 = True"
| "is_head Head2 = True"
| "is_head (Cell a) = False"

text \<open>
  The producer's list holds the links \<open>xs\<close>: it starts in the head cell \<^verbatim>\<open>put_head\<close>
  points at, has no link twice, and \<^verbatim>\<open>put_tail\<close> points at its last link cell, or at
  the head cell when it is empty.
\<close>

definition put_list :: "qstate \<Rightarrow> addr list \<Rightarrow> bool" where
  "put_list s xs =
     (is_head (put_head s) \<and> chain (links s) (rd s (put_head s)) xs \<and> distinct xs \<and>
      put_tail s = (if xs = [] then put_head s else Cell (last xs)))"

text \<open>The consumer's list holds the links \<open>xs\<close>.\<close>

definition get_list :: "qstate \<Rightarrow> addr list \<Rightarrow> bool" where
  "get_list s xs =
     (is_head (get_head s) \<and> chain (links s) (rd s (get_head s)) xs \<and> distinct xs)"

section \<open>Properties\<close>

subsection \<open>Creation\<close>

text \<open>When the allocation and the four initialisations succeed, the queue is the fresh one.\<close>

lemma msgqueue_create_ok:
  "msgqueue_create True 0 0 0 0 maxlen linkoff mem = Inr (new_queue maxlen linkoff mem)"
  by (simp add: msgqueue_create_def)

lemma new_pool_queue: "msgqueue (new_pool a stk mem tmem) = new_queue 0 0 mem"
  by (simp add: new_pool_def)

subsection \<open>Wait loops\<close>

lemma cond_wait_loop_now: "\<not> g s \<Longrightarrow> cond_wait_loop g obs s = Some s"
  by (cases obs) simp_all

lemma cond_wait_loop_mem: "cond_wait_loop g obs s = Some t \<Longrightarrow> t = s \<or> t \<in> set obs"
  by (induction obs arbitrary: s) (auto split: if_splits)

lemma cond_wait_loop_guard: "cond_wait_loop g obs s = Some t \<Longrightarrow> \<not> g t"
  by (induction obs arbitrary: s) (auto split: if_splits)

subsection \<open>Reading after an update\<close>

lemma rd_get_head_update [simp]: "rd (s\<lparr>get_head := r\<rparr>) x = rd s x"
  by (cases x) simp_all

lemma rd_swap_updates [simp]:
  "rd (s\<lparr>put_head := a, put_tail := b, msg_cnt := c\<rparr>) x = rd s x"
  by (cases x) simp_all

lemma get_head_wr [simp]: "get_head (wr r v s) = get_head s"
  by (cases r) simp_all

lemma msg_cnt_wr [simp]: "msg_cnt (wr r v s) = msg_cnt s"
  by (cases r) simp_all

lemma put_guard_wr [simp]: "put_guard (wr (Cell a) v s) = put_guard s"
  by (simp add: put_guard_def msg_full_def)

lemma not_full_unbounded: "msg_max s = 0 \<Longrightarrow> \<not> msg_full s"
  by (simp add: msg_full_def)

subsection \<open>The counter of the producer side\<close>

text \<open>
  Whatever the wake-ups, a put that returns leaves \<open>msg_cnt\<close> at the value found when
  its wait loop ended, that is when it last acquired the mutex.
\<close>

lemma msgqueue_put_msg_cnt:
  assumes "msgqueue_put obs msg s = Returns u s'"
  shows "\<exists>s2. cond_wait_loop put_guard obs (wr (Cell (msg + scast (link_off s))) 0 s) = Some s2
           \<and> msg_cnt s' = msg_cnt s2"
  using assms by (auto simp: msgqueue_put_def Let_def split: if_splits option.splits)

lemma msgqueue_put_alone_msg_cnt:
  "msgqueue_put [] msg s = Returns u s' \<Longrightarrow> msg_cnt s' = msg_cnt s"
  by (auto simp: msgqueue_put_def Let_def split: if_splits)

text \<open>
  C1. The specification lets every call of \<^verbatim>\<open>msgqueue_put\<close> increment \<open>msg_cnt\<close> by
  one before the mutex is released. The function has no such statement: on a fresh queue of
  capacity 8 the put of the message at address 4096 returns, and \<open>msg_cnt\<close> is 0 as before,
  not 1.
\<close>

theorem put_leaves_msg_cnt_unchanged:
  "returned (after (msgqueue_put [] 4096 (new_queue 8 0 (\<lambda>_. 0))) (\<lambda>s. Returns (msg_cnt s) s)) = Some 0"
  by (simp add: msgqueue_put_def new_queue_def put_guard_def msg_full_def)

text \<open>
  C2. The specification lets k calls of get after k calls of put on a fresh queue return the
  messages in the order of the puts. On a fresh queue of capacity 8, after the puts of the
  messages at 4096 and 8192 the first get finds the consumer's list empty, swaps, reads
  \<open>msg_cnt = 0\<close> in blocking mode and stays in the wait on \<^verbatim>\<open>get_cond\<close>: it returns
  no message.
\<close>

theorem get_waits_after_two_puts:
  "waiting (after (after (msgqueue_put [] 4096 (new_queue 8 0 (\<lambda>_. 0))) (msgqueue_put [] 8192))
      (msgqueue_get [])) = Some GetCond"
  by (simp add: msgqueue_put_def msgqueue_get_def uu_msgqueue_swap_def new_queue_def
      put_guard_def msg_full_def swap_guard_def)

text \<open>
  C3. The specification lets get return null only when no message is available and the queue
  is in nonblock mode, and a message whenever the queue holds one. On a fresh queue switched
  to nonblock mode, after the put of the message at 4096 the producer's head cell holds the
  link 4096, and the get that follows returns null.
\<close>

theorem get_returns_null_with_message_queued:
  "returned (after (msgqueue_put [] 4096 (msgqueue_set_nonblock (new_queue 0 0 (\<lambda>_. 0))))
      (\<lambda>s. Returns (rd s (put_head s)) s)) = Some 4096
   \<and> returned (after (msgqueue_put [] 4096 (msgqueue_set_nonblock (new_queue 0 0 (\<lambda>_. 0))))
      (msgqueue_get [])) = Some 0"
  by (simp add: msgqueue_put_def msgqueue_get_def uu_msgqueue_swap_def new_queue_def
      put_guard_def msg_full_def swap_guard_def msgqueue_set_nonblock_def)

subsection \<open>The end of a shutdown\<close>

text \<open>
  Whenever \<^verbatim>\<open>__thrdpool_terminate\<close> returns for a pool at an address where
  \<^verbatim>\<open>&pool->tid\<close> is not null, the stored identity is zero and the last join was
  made on the zero identity.
\<close>

lemma uu_thrdpool_terminate_joins_zero:
  assumes "uu_thrdpool_terminate obs me in_pool p = Returns u p'"
    and "\<forall>t \<in> set (p # obs). tid_field (self t) \<noteq> 0"
  shows "tid (pool p') = 0 \<and> joined p' \<noteq> [] \<and> last (joined p') = 0"
proof -
  let ?p3 = "if in_pool
     then p\<lparr>msgqueue := msgqueue_set_nonblock (msgqueue p)\<rparr>
           \<lparr>pool := (pool p)\<lparr>terminate := Some TermCond\<rparr>\<rparr>
           \<lparr>detached := detached p @ [me],
            pool := (pool p)\<lparr>terminate := Some TermCond, nthreads := nthreads (pool p) - 1\<rparr>\<rparr>
     else p\<lparr>msgqueue := msgqueue_set_nonblock (msgqueue p)\<rparr>
           \<lparr>pool := (pool p)\<lparr>terminate := Some TermCond\<rparr>\<rparr>"
  from assms(1) obtain p4 where loop: "cond_wait_loop workers_left obs ?p3 = Some p4"
    and p': "Returns u p' = (let (r, p5) = memcpy_tid uu_zero_tid p4 in
        if r \<noteq> 0 then Returns () (p5\<lparr>joined := joined p5 @ [tid (pool p5)]\<rparr>) else Returns () p5)"
    by (auto simp: uu_thrdpool_terminate_def Let_def split: option.splits if_splits)
  from cond_wait_loop_mem [OF loop] have "p4 = ?p3 \<or> p4 \<in> set obs" .
  with assms(2) have "tid_field (self p4) \<noteq> 0"
    by (auto split: if_splits)
  with p' show ?thesis
    by (simp add: memcpy_tid_def uu_zero_tid_def)
qed

text \<open>
  C4. The specification lets the terminating caller compare the stored identity of the last
  worker with the zero identity, join that worker exactly when it is not zero, and leave the
  stored identity as it is. A pool at address 32768 has one worker; the caller, thread 99 and
  not a worker, waits, and wakes up after the worker, thread 7, has left: \<open>nthreads = 0\<close>
  and the stored identity is 7. The function then overwrites the stored identity with zero
  and joins thread 0; thread 7 is not joined.
\<close>

theorem terminate_overwrites_tid_and_joins_zero:
  "returned (after
     (uu_thrdpool_terminate
        [(new_pool 32768 0 (\<lambda>_. 0) (\<lambda>_. \<lparr>routine = 0, ctxt = 0\<rparr>))
           \<lparr>pool := \<lparr>nthreads = 0, stacksize = 0, tid = 7, terminate = Some TermCond\<rparr>,
            msgqueue := msgqueue_set_nonblock (new_queue 0 0 (\<lambda>_. 0))\<rparr>]
        99 False
        ((new_pool 32768 0 (\<lambda>_. 0) (\<lambda>_. \<lparr>routine = 0, ctxt = 0\<rparr>))
           \<lparr>pool := \<lparr>nthreads = 1, stacksize = 0, tid = 0, terminate = None\<rparr>\<rparr>))
     (\<lambda>p. Returns (joined p, tid (pool p)) p)) = Some ([0], 0)"
  by (simp add: uu_thrdpool_terminate_def new_pool_def workers_left_def memcpy_tid_def
      tid_field_def uu_zero_tid_def msgqueue_set_nonblock_def new_queue_def)

subsection \<open>Switching the mode\<close>

text \<open>
  C5. After \<^verbatim>\<open>set_nonblock\<close> and then \<^verbatim>\<open>set_block\<close> the queue is the one it was,
  with the flag cleared. The producer's wait guard is then the fullness test alone and the
  consumer's wait guard is \<open>msg_cnt = 0\<close> alone, and every put and get, under any
  wake-ups, has the outcome it has on the queue in blocking mode.
\<close>

theorem set_nonblock_then_set_block_restores_blocking:
  "msgqueue_set_block (msgqueue_set_nonblock s) = s\<lparr>nonblock := 0\<rparr>
   \<and> put_guard (msgqueue_set_block (msgqueue_set_nonblock s)) = msg_full s
   \<and> swap_guard (msgqueue_set_block (msgqueue_set_nonblock s)) = (msg_cnt s = 0)
   \<and> msgqueue_put obs msg (msgqueue_set_block (msgqueue_set_nonblock s))
       = msgqueue_put obs msg (s\<lparr>nonblock := 0\<rparr>)
   \<and> msgqueue_get obs (msgqueue_set_block (msgqueue_set_nonblock s))
       = msgqueue_get obs (s\<lparr>nonblock := 0\<rparr>)"
  by (simp add: msgqueue_set_block_def msgqueue_set_nonblock_def put_guard_def swap_guard_def
      msg_full_def)

subsection \<open>A queue without a bound\<close>

text \<open>
  C6. With \<open>msg_max = 0\<close> the test \<open>msg_cnt > msg_max - 1\<close> compares with the largest
  64-bit value and is false for every \<open>msg_cnt\<close>; a put never stays in the wait on
  \<^verbatim>\<open>put_cond\<close>, in either mode and under any wake-ups, and returns when the link
  address is not null.
\<close>

theorem put_never_waits_when_msg_max_is_zero:
  "msg_max s = 0 \<Longrightarrow>
     \<not> msg_full s
     \<and> waiting (msgqueue_put obs msg s) = None
     \<and> (msg + scast (link_off s) \<noteq> 0 \<longrightarrow> returned (msgqueue_put obs msg s) = Some ())"
  by (simp add: msgqueue_put_def Let_def put_guard_def cond_wait_loop_now not_full_unbounded)

text \<open>The queue of a thread pool, made with capacity 0, and the message at 4096.\<close>

theorem put_never_waits_when_msg_max_is_zero_witness:
  "msg_max (new_queue 0 0 (\<lambda>_. 0)) = 0
   \<and> \<not> msg_full (new_queue 0 0 (\<lambda>_. 0))
   \<and> waiting (msgqueue_put [] 4096 (new_queue 0 0 (\<lambda>_. 0))) = None
   \<and> returned (msgqueue_put [] 4096 (new_queue 0 0 (\<lambda>_. 0))) = Some ()"
proof -
  have h: "msg_max (new_queue 0 0 (\<lambda>_. 0)) = 0"
    by (simp add: new_queue_def)
  from put_never_waits_when_msg_max_is_zero [OF h, of "[]" 4096] h show ?thesis
    by (simp add: new_queue_def)
qed

subsection \<open>The swap\<close>

text \<open>
  C7. \<^verbatim>\<open>__msgqueue_swap\<close> is called by \<^verbatim>\<open>msgqueue_get\<close> alone, with the consumer's
  mutex held and the consumer's head cell null; no other thread writes that cell meanwhile.
  When it returns, \<^verbatim>\<open>put_head\<close> and \<^verbatim>\<open>put_tail\<close> are the \<^verbatim>\<open>get_head\<close> of the
  entry, the producer's list is empty and \<open>msg_cnt\<close> is 0.
\<close>

theorem swap_resets_producer_side:
  assumes ret: "uu_msgqueue_swap obs s = Returns cnt s'"
    and hd: "is_head (get_head s)"
    and empty: "rd s (get_head s) = 0"
    and others: "\<forall>t \<in> set obs. rd t (get_head s) = 0"
  shows "put_head s' = get_head s \<and> put_tail s' = get_head s \<and> put_list s' [] \<and> msg_cnt s' = 0"
proof -
  let ?s1 = "s\<lparr>get_head := put_head s\<rparr>"
  from ret obtain s2 where loop: "cond_wait_loop swap_guard obs ?s1 = Some s2"
    and s': "s' = s2\<lparr>put_head := get_head s, put_tail := get_head s, msg_cnt := 0\<rparr>"
    by (auto simp: uu_msgqueue_swap_def Let_def split: option.splits)
  from cond_wait_loop_mem [OF loop] have "s2 = ?s1 \<or> s2 \<in> set obs" .
  then have cell: "rd s2 (get_head s) = 0"
    using empty others by auto
  show ?thesis
    using hd cell by (simp add: s' put_list_def)
qed

text \<open>
  A consumer calls the swap on a fresh queue of capacity 8 and waits; it wakes up when a
  shutdown has switched the queue to nonblock mode, and the swap returns 0.
\<close>

theorem swap_resets_producer_side_witness:
  "is_head (get_head (new_queue 8 0 (\<lambda>_. 0)))
   \<and> rd (new_queue 8 0 (\<lambda>_. 0)) (get_head (new_queue 8 0 (\<lambda>_. 0))) = 0
   \<and> rd (msgqueue_set_nonblock ((new_queue 8 0 (\<lambda>_. 0))\<lparr>get_head := Head2\<rparr>))
        (get_head (new_queue 8 0 (\<lambda>_. 0))) = 0
   \<and> uu_msgqueue_swap [msgqueue_set_nonblock ((new_queue 8 0 (\<lambda>_. 0))\<lparr>get_head := Head2\<rparr>)]
        (new_queue 8 0 (\<lambda>_. 0))
      = Returns 0 ((new_queue 8 0 (\<lambda>_. 0))
          \<lparr>nonblock := 1, get_head := Head2, put_head := Head1, put_tail := Head1\<rparr>)
   \<and> put_list ((new_queue 8 0 (\<lambda>_. 0))
          \<lparr>nonblock := 1, get_head := Head2, put_head := Head1, put_tail := Head1\<rparr>) []"
proof -
  let ?s = "new_queue 8 0 (\<lambda>_. 0)"
  let ?t = "msgqueue_set_nonblock (?s\<lparr>get_head := Head2\<rparr>)"
  let ?s' = "?s\<lparr>nonblock := 1, get_head := Head2, put_head := Head1, put_tail := Head1\<rparr>"
  have ret: "uu_msgqueue_swap [?t] ?s = Returns 0 ?s'"
    by (simp add: uu_msgqueue_swap_def msgqueue_set_nonblock_def new_queue_def swap_guard_def)
  have hd: "is_head (get_head ?s)" and empty: "rd ?s (get_head ?s) = 0"
    by (simp_all add: new_queue_def)
  have others: "\<forall>t \<in> set [?t]. rd t (get_head ?s) = 0"
    by (simp add: msgqueue_set_nonblock_def new_queue_def)
  from swap_resets_producer_side [OF ret hd empty others] ret hd empty others
  show ?thesis by simp
qed

subsection \<open>Scheduling a task\<close>

lemma chain_snoc:
  "chain m p xs \<Longrightarrow> distinct xs \<Longrightarrow> xs \<noteq> [] \<Longrightarrow> l \<notin> set xs \<Longrightarrow> l \<noteq> 0 \<Longrightarrow>
   chain (m(l := 0, last xs := l)) p (xs @ [l])"
proof (induction xs arbitrary: p)
  case Nil
  then show ?case by simp
next
  case (Cons x xs)
  show ?case
  proof (cases "xs = []")
    case True
    with Cons.prems show ?thesis by auto
  next
    case False
    from Cons.prems have tl: "chain m (m x) xs" "distinct xs" "l \<notin> set xs" "l \<noteq> 0"
      and x: "p = x" "x \<noteq> 0" "x \<notin> set xs" "x \<noteq> l"
      by auto
    from False x have neq: "last xs \<noteq> x" using last_in_set by metis
    with x have same: "(m(l := 0, last xs := l)) x = m x" by simp
    have "chain (m(l := 0, last xs := l)) (m x) (xs @ [l])"
      by (rule Cons.IH [OF tl(1) tl(2) False tl(3) tl(4)])
    with x False same show ?thesis by (simp del: fun_upd_apply)
  qed
qed

text \<open>The two assignments at the end of \<^verbatim>\<open>msgqueue_put\<close> append the link.\<close>

lemma put_list_append:
  assumes pl: "put_list s xs" and fresh: "l \<notin> set xs" and nz: "l \<noteq> 0"
  shows "put_list ((wr (put_tail (wr (Cell l) 0 s)) l (wr (Cell l) 0 s))\<lparr>put_tail := Cell l\<rparr>) (xs @ [l])"
proof (cases "xs = []")
  case True
  with pl have "is_head (put_head s)" "put_tail s = put_head s"
    by (simp_all add: put_list_def)
  with True nz show ?thesis
    by (cases "put_head s") (simp_all add: put_list_def)
next
  case False
  with pl have hd: "is_head (put_head s)" and tl: "put_tail s = Cell (last xs)"
    and ch: "chain (links s) (rd s (put_head s)) xs" and dist: "distinct xs"
    by (simp_all add: put_list_def)
  from chain_snoc [OF ch dist False fresh nz] hd tl False fresh dist show ?thesis
    by (cases "put_head s") (simp_all add: put_list_def)
qed

text \<open>
  C8. The queue of a pool is made by \<^verbatim>\<open>msgqueue_create(0, 0)\<close>, so \<open>msg_max\<close> and
  \<open>link_off\<close> are 0; let its producer list hold the entries \<open>xs\<close>, and let \<open>buf\<close>
  be what \<^verbatim>\<open>malloc\<close> returned, null or a block that is none of \<open>xs\<close>.
  \<^verbatim>\<open>thrdpool_schedule\<close> returns \<open>-1\<close> exactly when \<open>buf\<close> is null, and then in the
  unchanged state. Otherwise it returns 0 without waiting, the producer list holds
  \<open>xs\<close> followed by the one entry \<open>buf\<close>, whose task field is the caller's task, and the
  consumer's head pointer and the pool structure are as before.
\<close>

theorem thrdpool_schedule_enqueues_one_entry:
  assumes unbounded: "msg_max (msgqueue p) = 0"
    and off: "link_off (msgqueue p) = 0"
    and pl: "put_list (msgqueue p) xs"
    and fresh: "buf \<notin> set xs"
  shows "(returned (thrdpool_schedule buf obs task p) = Some (- 1)) = (buf = 0)
    \<and> thrdpool_schedule 0 obs task p = Returns (- 1) p
    \<and> (buf \<noteq> 0 \<longrightarrow>
         returned (thrdpool_schedule buf obs task p) = Some 0
         \<and> put_list (msgqueue (final (thrdpool_schedule buf obs task p))) (xs @ [buf])
         \<and> tasks (final (thrdpool_schedule buf obs task p)) = (tasks p)(buf := task)
         \<and> get_head (msgqueue (final (thrdpool_schedule buf obs task p))) = get_head (msgqueue p)
         \<and> pool (final (thrdpool_schedule buf obs task p)) = pool p)"
proof (cases "buf = 0")
  case True
  then show ?thesis by (simp add: thrdpool_schedule_def)
next
  case False
  let ?q = "msgqueue p"
  let ?s1 = "wr (Cell buf) 0 ?q"
  have "\<not> put_guard ?s1"
    using unbounded by (simp add: put_guard_def not_full_unbounded)
  then have loop: "cond_wait_loop put_guard obs ?s1 = Some ?s1"
    by (rule cond_wait_loop_now)
  have put: "msgqueue_put obs buf ?q = Returns () ((wr (put_tail ?s1) buf ?s1)\<lparr>put_tail := Cell buf\<rparr>)"
    using False off loop by (simp add: msgqueue_put_def Let_def)
  show ?thesis
    using False put put_list_append [OF pl fresh False]
    by (simp add: thrdpool_schedule_def uu_thrdpool_schedule_def)
qed

text \<open>
  A pool at address 32768 whose queue holds the entry at 4096 from an earlier call; the block
  at 8192 receives the task with routine 300 and context 400.
\<close>

theorem thrdpool_schedule_enqueues_one_entry_witness:
  "msg_max (msgqueue (final (thrdpool_schedule 4096 [] \<lparr>routine = 100, ctxt = 200\<rparr>
        (new_pool 32768 0 (\<lambda>_. 0) (\<lambda>_. \<lparr>routine = 0, ctxt = 0\<rparr>))))) = 0
   \<and> link_off (msgqueue (final (thrdpool_schedule 4096 [] \<lparr>routine = 100, ctxt = 200\<rparr>
        (new_pool 32768 0 (\<lambda>_. 0) (\<lambda>_. \<lparr>routine = 0, ctxt = 0\<rparr>))))) = 0
   \<and> put_list (msgqueue (final (thrdpool_schedule 4096 [] \<lparr>routine = 100, ctxt = 200\<rparr>
        (new_pool 32768 0 (\<lambda>_. 0) (\<lambda>_. \<lparr>routine = 0, ctxt = 0\<rparr>))))) [4096]
   \<and> (8192::addr) \<notin> set [4096]
   \<and> (8192::addr) \<noteq> 0
   \<and> returned (thrdpool_schedule 8192 [] \<lparr>routine = 300, ctxt = 400\<rparr>
        (final (thrdpool_schedule 4096 [] \<lparr>routine = 100, ctxt = 200\<rparr>
          (new_pool 32768 0 (\<lambda>_. 0) (\<lambda>_. \<lparr>routine = 0, ctxt = 0\<rparr>))))) = Some 0
   \<and> put_list (msgqueue (final (thrdpool_schedule 8192 [] \<lparr>routine = 300, ctxt = 400\<rparr>
        (final (thrdpool_schedule 4096 [] \<lparr>routine = 100, ctxt = 200\<rparr>
          (new_pool 32768 0 (\<lambda>_. 0) (\<lambda>_. \<lparr>routine = 0, ctxt = 0\<rparr>))))))) [4096, 8192]
   \<and> tasks (final (thrdpool_schedule 8192 [] \<lparr>routine = 300, ctxt = 400\<rparr>
        (final (thrdpool_schedule 4096 [] \<lparr>routine = 100, ctxt = 200\<rparr>
          (new_pool 32768 0 (\<lambda>_. 0) (\<lambda>_. \<lparr>routine = 0, ctxt = 0\<rparr>)))))) 8192
      = \<lparr>routine = 300, ctxt = 400\<rparr>"
proof -
  let ?p0 = "new_pool 32768 0 (\<lambda>_. 0) (\<lambda>_. \<lparr>routine = 0, ctxt = 0\<rparr>)"
  let ?p = "final (thrdpool_schedule 4096 [] \<lparr>routine = 100, ctxt = 200\<rparr> ?p0)"
  have h1: "msg_max (msgqueue ?p) = 0" and h2: "link_off (msgqueue ?p) = 0"
    by (simp_all add: thrdpool_schedule_def uu_thrdpool_schedule_def msgqueue_put_def
        put_guard_def msg_full_def new_pool_def new_queue_def)
  have h3: "put_list (msgqueue ?p) [4096]"
    by (simp add: thrdpool_schedule_def uu_thrdpool_schedule_def msgqueue_put_def
        put_guard_def msg_full_def new_pool_def new_queue_def put_list_def)
  have h4: "(8192::addr) \<notin> set [4096]" by simp
  from thrdpool_schedule_enqueues_one_entry [OF h1 h2 h3 h4, of "[]" "\<lparr>routine = 300, ctxt = 400\<rparr>"]
  show ?thesis using h1 h2 h3 by simp
qed

subsection \<open>Growing the pool\<close>

text \<open>
  C9. When the thread is started (\<^verbatim>\<open>pthread_create\<close> returns 0) \<^verbatim>\<open>thrdpool_increase\<close>
  returns 0 and \<open>nthreads\<close> is one more, in \<^verbatim>\<open>size_t\<close> arithmetic, the other fields of
  the pool structure being as before. When \<^verbatim>\<open>pthread_create\<close> returns an error \<open>c\<close>,
  or is not reached because \<^verbatim>\<open>pthread_attr_init\<close> returned an error \<open>c\<close>, the
  function returns \<open>-1\<close> and nothing but \<^verbatim>\<open>errno\<close> has changed.
\<close>

theorem thrdpool_increase_nthreads:
  "fst (thrdpool_increase 0 0 p) = 0
   \<and> nthreads (pool (snd (thrdpool_increase 0 0 p))) = nthreads (pool p) + 1
   \<and> pool (snd (thrdpool_increase 0 0 p)) = (pool p)\<lparr>nthreads := nthreads (pool p) + 1\<rparr>
   \<and> (c \<noteq> 0 \<longrightarrow>
        fst (thrdpool_increase 0 c p) = - 1
        \<and> pool (snd (thrdpool_increase 0 c p)) = pool p
        \<and> snd (thrdpool_increase 0 c p) = p\<lparr>errno := c\<rparr>
        \<and> fst (thrdpool_increase c r p) = - 1
        \<and> snd (thrdpool_increase c r p) = p\<lparr>errno := c\<rparr>)"
  by (simp add: thrdpool_increase_def)

text \<open>A pool with three workers; the spawn fails with the error 11.\<close>

theorem thrdpool_increase_nthreads_witness:
  "(11::int) \<noteq> 0
   \<and> thrdpool_increase 0 11
        ((new_pool 32768 0 (\<lambda>_. 0) (\<lambda>_. \<lparr>routine = 0, ctxt = 0\<rparr>))
           \<lparr>pool := \<lparr>nthreads = 3, stacksize = 0, tid = 0, terminate = None\<rparr>\<rparr>)
      = (- 1, (new_pool 32768 0 (\<lambda>_. 0) (\<lambda>_. \<lparr>routine = 0, ctxt = 0\<rparr>))
           \<lparr>pool := \<lparr>nthreads = 3, stacksize = 0, tid = 0, terminate = None\<rparr>, errno := 11\<rparr>)
   \<and> nthreads (pool (snd (thrdpool_increase 0 0
        ((new_pool 32768 0 (\<lambda>_. 0) (\<lambda>_. \<lparr>routine = 0, ctxt = 0\<rparr>))
           \<lparr>pool := \<lparr>nthreads = 3, stacksize = 0, tid = 0, terminate = None\<rparr>\<rparr>)))) = 4"
  using thrdpool_increase_nthreads [of
      "(new_pool 32768 0 (\<lambda>_. 0) (\<lambda>_. \<lparr>routine = 0, ctxt = 0\<rparr>))
           \<lparr>pool := \<lparr>nthreads = 3, stacksize = 0, tid = 0, terminate = None\<rparr>\<rparr>" 11 0]
  by (simp add: new_pool_def prod_eq_iff)

subsection \<open>Destroying the queue\<close>

lemma rd_msgqueue_destory [simp]: "rd (msgqueue_destory s) x = rd s x"
  by (cases x) (simp_all add: msgqueue_destory_def)

text \<open>
  C10. \<^verbatim>\<open>msgqueue_destory\<close> releases the two mutexes, the two condition variables and
  the block of the queue structure, and nothing else: no message block is among what it
  releases, the link cells are untouched, and the consumer's and the producer's lists hold
  what they held. The function returns nothing.
\<close>

theorem msgqueue_destory_releases_only_the_queue:
  "released (msgqueue_destory s) =
     released s @ [Mutex GetMutex, Mutex PutMutex, Cond PutCond, Cond GetCond, QueueBlock]
   \<and> (Block a \<in> set (released (msgqueue_destory s))) = (Block a \<in> set (released s))
   \<and> links (msgqueue_destory s) = links s
   \<and> get_list (msgqueue_destory s) xs = get_list s xs
   \<and> put_list (msgqueue_destory s) ys = put_list s ys
   \<and> msgqueue_destory s = s\<lparr>released := released (msgqueue_destory s)\<rparr>"
  by (simp add: get_list_def put_list_def) (simp add: msgqueue_destory_def)

end
